theory Spec2Isabelle
  imports Main
begin

section \<open>The Loadout Optimizer screen (LoadoutBuilder.tsx)\<close>

text \<open>
  A shallow embedding of \<^verbatim>\<open>src/app/d2-loadout-builder/LoadoutBuilder.tsx\<close>: the items
  selector of \<^verbatim>\<open>mapStateToProps\<close>, the component's state and its handlers, the stores
  subscription, the memoized calls and \<^verbatim>\<open>render\<close>.
\<close>

subsection \<open>Data model\<close>

text \<open>\<^verbatim>\<open>DestinyClass\<close> of bungie-api-ts: Titan = 0, Hunter = 1, Warlock = 2, Unknown = 3.\<close>

datatype DestinyClass = Titan | Hunter | Warlock | Unknown

text \<open>
  The declarations of \<^verbatim>\<open>InventoryBucket\<close>, \<^verbatim>\<open>D2Item\<close> and \<^verbatim>\<open>DimStore\<close> are imported by
  the file; the records below hold the fields the file reads. \<^verbatim>\<open>sockets\<close> is an object or
  null: only its presence is tested, so its content is a list of plug hashes.
\<close>

record InventoryBucket =
  inArmor :: bool
  bucket_hash :: nat

record D2Item =
  isDestiny2 :: bool
  sockets :: "nat list option"
  bucket :: InventoryBucket
  item_classType :: DestinyClass
  item_hash :: nat

text \<open>An entry of \<^verbatim>\<open>store.items\<close> may be null or undefined (the selector tests \<^verbatim>\<open>!item\<close>).\<close>

record DimStore =
  store_id :: string
  current :: bool
  store_classType :: DestinyClass
  store_items :: "D2Item option list"

text \<open>
  \<^verbatim>\<open>items: { [classType]: { [bucketHash]: { [itemHash]: D2Item[] } } }\<close>, three nested
  dictionaries.
\<close>

type_synonym ItemsByHash = "nat \<rightharpoonup> D2Item list"
type_synonym ItemsByBucket = "nat \<rightharpoonup> ItemsByHash"
type_synonym Items = "DestinyClass \<rightharpoonup> ItemsByBucket"

subsection \<open>The items selector (lines 69--105)\<close>

text \<open>The \<^verbatim>\<open>continue\<close> test of lines 77--85; 4023194814 is the ghost bucket.\<close>

definition skipItem :: "D2Item option \<Rightarrow> bool" where
  "skipItem entry =
     (case entry of
        None \<Rightarrow> True
      | Some item \<Rightarrow>
          \<not> isDestiny2 item \<or> sockets item = None \<or>
          (\<not> inArmor (bucket item) \<and> bucket_hash (bucket item) \<noteq> 4023194814))"

text \<open>The class types the inner loop runs over (lines 86--88).\<close>

definition classTypesOf :: "D2Item \<Rightarrow> DestinyClass list" where
  "classTypesOf item =
     (if item_classType item = Unknown then [Hunter, Titan, Warlock]
      else [item_classType item])"

text \<open>
  Lines 89--98: each level is created when it is missing (an object or an array is never
  falsy), then the item is pushed at the end of the innermost array.
\<close>

definition pushItem :: "D2Item \<Rightarrow> DestinyClass \<Rightarrow> Items \<Rightarrow> Items" where
  "pushItem item classType items =
     (let byBucket = (case items classType of None \<Rightarrow> Map.empty | Some m \<Rightarrow> m);
          byHash = (case byBucket (bucket_hash (bucket item)) of
                      None \<Rightarrow> Map.empty | Some m \<Rightarrow> m);
          instances = (case byHash (item_hash item) of None \<Rightarrow> [] | Some l \<Rightarrow> l)
      in items(classType \<mapsto>
           byBucket(bucket_hash (bucket item) \<mapsto>
             byHash(item_hash item \<mapsto> instances @ [item]))))"

fun forClassTypes :: "D2Item \<Rightarrow> DestinyClass list \<Rightarrow> Items \<Rightarrow> Items" where
  "forClassTypes item [] items = items"
| "forClassTypes item (classType # rest) items =
     forClassTypes item rest (pushItem item classType items)"

fun forItems :: "D2Item option list \<Rightarrow> Items \<Rightarrow> Items" where
  "forItems [] items = items"
| "forItems (entry # rest) items =
     (if skipItem entry then forItems rest items
      else case entry of
             None \<Rightarrow> forItems rest items
           | Some item \<Rightarrow> forItems rest (forClassTypes item (classTypesOf item) items))"

fun forStores :: "DimStore list \<Rightarrow> Items \<Rightarrow> Items" where
  "forStores [] items = items"
| "forStores (store # rest) items = forStores rest (forItems (store_items store) items)"

definition itemsSelector :: "DimStore list \<Rightarrow> Items" where
  "itemsSelector stores = forStores stores Map.empty"

text \<open>Reading \<^verbatim>\<open>items[classType][bucketHash][itemHash]\<close>, a missing level read as no items.\<close>

definition itemsAt :: "Items \<Rightarrow> DestinyClass \<Rightarrow> nat \<Rightarrow> nat \<Rightarrow> D2Item list" where
  "itemsAt items classType bucketHash itemHash =
     (case items classType of
        None \<Rightarrow> []
      | Some byBucket \<Rightarrow>
          (case byBucket bucketHash of
             None \<Rightarrow> []
           | Some byHash \<Rightarrow>
               (case byHash itemHash of None \<Rightarrow> [] | Some l \<Rightarrow> l)))"

text \<open>The items of all stores in the order the two outer loops visit them, nulls dropped.\<close>

definition allItems :: "DimStore list \<Rightarrow> D2Item list" where
  "allItems stores = concat (map (\<lambda>store. List.map_filter (\<lambda>entry. entry) (store_items store)) stores)"

text \<open>Whether the loops put an item under the three keys: it is not skipped, the class type
  is one of those the inner loop runs over, and the hashes are its own.\<close>

definition placed :: "DestinyClass \<Rightarrow> nat \<Rightarrow> nat \<Rightarrow> D2Item \<Rightarrow> bool" where
  "placed c b h item =
     (\<not> skipItem (Some item) \<and> c \<in> set (classTypesOf item) \<and>
      b = bucket_hash (bucket item) \<and> h = item_hash item)"

subsection \<open>Component state (lines 58--66, 128--142)\<close>

datatype StatTypes = Mobility | Resilience | Recovery

record MinMax =
  mm_min :: int
  mm_max :: int

text \<open>
  \<^verbatim>\<open>LockedItemType\<close> is declared in \<^verbatim>\<open>./types\<close>; it is the type parameter \<open>'l\<close>.
  \<^verbatim>\<open>statFilters\<close> has exactly the three keys of \<^verbatim>\<open>StatTypes\<close>, so it is a total function.
\<close>

record 'l State =
  requirePerks :: bool
  lockedMap :: "nat \<rightharpoonup> 'l list"
  selectedStore :: "DimStore option"
  statFilters :: "StatTypes \<Rightarrow> MinMax"
  minimumPower :: int
  query :: string
  statOrder :: "StatTypes list"

text \<open>The state the constructor assigns; \<^verbatim>\<open>selectedStore\<close> is left undefined.\<close>

definition initialState :: "'l State" where
  "initialState =
     \<lparr> requirePerks = True,
       lockedMap = Map.empty,
       selectedStore = None,
       statFilters = (\<lambda>stat. case stat of
           Mobility \<Rightarrow> \<lparr> mm_min = 0, mm_max = 10 \<rparr>
         | Resilience \<Rightarrow> \<lparr> mm_min = 0, mm_max = 10 \<rparr>
         | Recovery \<Rightarrow> \<lparr> mm_min = 0, mm_max = 10 \<rparr>),
       minimumPower = 0,
       query = [],
       statOrder = [Resilience, Recovery, Mobility] \<rparr>"

subsection \<open>Props (lines 38--56)\<close>

text \<open>
  \<^verbatim>\<open>D2ManifestDefinitions\<close> and \<^verbatim>\<open>SearchConfig\<close> are opaque here: the type parameters
  \<open>'d\<close> and \<open>'c\<close>. Of \<^verbatim>\<open>SearchFilters\<close> the file calls \<^verbatim>\<open>filterFunction\<close> only, which
  compiles a query into a predicate on items.
\<close>

record SearchFilters =
  filterFunction :: "string \<Rightarrow> D2Item \<Rightarrow> bool"

record ('d, 'c) Props =
  storesLoaded :: bool
  stores :: "DimStore list"
  isPhonePortrait :: bool
  items :: Items
  defs :: "'d option"
  searchConfig :: 'c
  filters :: SearchFilters

subsection \<open>Exceptions\<close>

text \<open>
  JavaScript can throw any value. A thrown value is an \<^verbatim>\<open>Error\<close> object with its message
  (\<^verbatim>\<open>TypeError\<close> is what reading a property of \<^verbatim>\<open>undefined\<close> throws), or a falsy value
  (\<^verbatim>\<open>undefined\<close>, \<^verbatim>\<open>null\<close>, \<^verbatim>\<open>0\<close>, the empty string). \<^verbatim>\<open>render\<close> tests the caught value
  for truthiness and reads \<^verbatim>\<open>message\<close> of a truthy one only.
\<close>

datatype error = Error string | TypeError string | Falsy

fun truthy :: "error \<Rightarrow> bool" where
  "truthy (Error m) = True"
| "truthy (TypeError m) = True"
| "truthy Falsy = False"

fun message :: "error \<Rightarrow> string" where
  "message (Error m) = m"
| "message (TypeError m) = m"
| "message Falsy = []"

subsection \<open>memoize-one (lines 33, 125--126)\<close>

text \<open>
  \<^verbatim>\<open>memoizeOne(resultFn)\<close> of the memoize-one package keeps the arguments and the result of
  one call: \<open>None\<close> before any call has returned (\<^verbatim>\<open>calledOnce\<close> false), afterwards
  \<open>Some (lastArgs, lastResult)\<close>. A call whose arguments are argument-wise \<^verbatim>\<open>===\<close> to
  \<^verbatim>\<open>lastArgs\<close> returns \<^verbatim>\<open>lastResult\<close>; any other call runs \<^verbatim>\<open>resultFn\<close> and stores the
  arguments and the result once \<^verbatim>\<open>resultFn\<close> has returned. When \<^verbatim>\<open>resultFn\<close> throws, the
  exception passes through and nothing is stored.

  \<open>'x\<close> is the type of argument lists as the wrapper compares them, primitives by value
  and objects by reference, so that equality on \<open>'x\<close> is the argument-wise \<^verbatim>\<open>===\<close>. The
  underlying function is a function of \<open>'x\<close>: what it returns or throws depends on its
  arguments only. The wrapper is always called on the same component, so the comparison
  of \<^verbatim>\<open>this\<close> is left out. The boolean of the result tells whether \<^verbatim>\<open>resultFn\<close> was run.
\<close>

type_synonym ('x, 'r) memo = "('x \<times> 'r) option"

definition applyResultFn ::
  "('x \<Rightarrow> error + 'r) \<Rightarrow> ('x, 'r) memo \<Rightarrow> 'x \<Rightarrow> ('x, 'r) memo \<times> bool \<times> (error + 'r)" where
  "applyResultFn resultFn cache newArgs =
     (case resultFn newArgs of
        Inl e \<Rightarrow> (cache, True, Inl e)
      | Inr r \<Rightarrow> (Some (newArgs, r), True, Inr r))"

definition memoizeOne ::
  "('x \<Rightarrow> error + 'r) \<Rightarrow> ('x, 'r) memo \<Rightarrow> 'x \<Rightarrow> ('x, 'r) memo \<times> bool \<times> (error + 'r)" where
  "memoizeOne resultFn cache newArgs =
     (case cache of
        None \<Rightarrow> applyResultFn resultFn cache newArgs
      | Some (lastArgs, lastResult) \<Rightarrow>
          if newArgs = lastArgs then (cache, False, Inr lastResult)
          else applyResultFn resultFn cache newArgs)"

subsection \<open>The component instance\<close>

text \<open>
  The arguments of \<^verbatim>\<open>computeSets\<close> (items, class type, perk-requirement flag, locked map,
  filter) and of \<^verbatim>\<open>filterGeneratedSets\<close> (sets, minimum power, locked map, stat filters,
  stat order), as \<^verbatim>\<open>render\<close> passes them. \<^verbatim>\<open>ArmorSet\<close> is the type parameter \<open>'a\<close>.
  An object argument is modelled by its value: two arguments that are the same object are
  equal in the model, and the model does not tell a fresh copy from its original. So the
  code runs a function whenever the model does, and both use the same lists, what a
  function returns depending on its arguments only.
\<close>

type_synonym 'l ComputeArgs =
  "Items \<times> DestinyClass \<times> bool \<times> (nat \<rightharpoonup> 'l list) \<times> (D2Item \<Rightarrow> bool)"

type_synonym ('l, 'a) FilterArgs =
  "'a list \<times> int \<times> (nat \<rightharpoonup> 'l list) \<times> (StatTypes \<Rightarrow> MinMax) \<times> StatTypes list"

text \<open>
  The instance: React's \<^verbatim>\<open>this.state\<close>, the private fields of the class, and the two
  parts of React's bookkeeping that decide what \<^verbatim>\<open>this.state\<close> reads: the queue of
  updates not yet applied, and whether React is batching updates (inside an event handler
  or a lifecycle method) or applies each \<^verbatim>\<open>setState\<close> at once (a callback run outside of
  React, as React 16 does).
\<close>

record ('l, 'a) LoadoutBuilder =
  state :: "'l State"
  pending :: "('l State \<Rightarrow> 'l State) list"
  batching :: bool
  storesSubscription :: "nat option"
  computeSetsMemoized :: "('l ComputeArgs, 'a list) memo"
  filterSetsMemoized :: "(('l, 'a) FilterArgs, 'a list) memo"

definition constructor :: "('l, 'a) LoadoutBuilder" where
  "constructor =
     \<lparr> state = initialState, pending = [], batching = False, storesSubscription = None,
       computeSetsMemoized = None, filterSetsMemoized = None \<rparr>"

text \<open>Applying the queued updates in order, as React does before it renders.\<close>

definition flushUpdates :: "('l, 'a) LoadoutBuilder \<Rightarrow> ('l, 'a) LoadoutBuilder" where
  "flushUpdates c = c\<lparr> state := fold (\<lambda>update s. update s) (pending c) (state c), pending := [] \<rparr>"

definition setState ::
  "('l State \<Rightarrow> 'l State) \<Rightarrow> ('l, 'a) LoadoutBuilder \<Rightarrow> ('l, 'a) LoadoutBuilder" where
  "setState update c =
     (if batching c then c\<lparr> pending := pending c @ [update] \<rparr>
      else flushUpdates (c\<lparr> pending := pending c @ [update] \<rparr>))"

subsection \<open>Handlers (lines 303--344)\<close>

definition setRequiredPerks :: "('l, 'a) LoadoutBuilder \<Rightarrow> ('l, 'a) LoadoutBuilder" where
  "setRequiredPerks c = setState (\<lambda>s. s\<lparr> requirePerks := False \<rparr>) c"

definition onCharacterChanged ::
  "('d, 'c) Props \<Rightarrow> string \<Rightarrow> ('l, 'a) LoadoutBuilder \<Rightarrow> ('l, 'a) LoadoutBuilder" where
  "onCharacterChanged props storeId c =
     (let selected = find (\<lambda>s. store_id s = storeId) (stores props)
      in setState (\<lambda>s. s\<lparr>
           selectedStore := selected,
           lockedMap := Map.empty,
           requirePerks := True,
           statFilters := (\<lambda>stat. case stat of
               Mobility \<Rightarrow> \<lparr> mm_min = 0, mm_max = 10 \<rparr>
             | Resilience \<Rightarrow> \<lparr> mm_min = 0, mm_max = 10 \<rparr>
             | Recovery \<Rightarrow> \<lparr> mm_min = 0, mm_max = 10 \<rparr>),
           minimumPower := 0 \<rparr>) c)"

definition onStatFiltersChanged ::
  "(StatTypes \<Rightarrow> MinMax) \<Rightarrow> ('l, 'a) LoadoutBuilder \<Rightarrow> ('l, 'a) LoadoutBuilder" where
  "onStatFiltersChanged newStatFilters c = setState (\<lambda>s. s\<lparr> statFilters := newStatFilters \<rparr>) c"

definition onMinimumPowerChanged ::
  "int \<Rightarrow> ('l, 'a) LoadoutBuilder \<Rightarrow> ('l, 'a) LoadoutBuilder" where
  "onMinimumPowerChanged newMinimumPower c =
     setState (\<lambda>s. s\<lparr> minimumPower := newMinimumPower \<rparr>) c"

definition onQueryChanged :: "string \<Rightarrow> ('l, 'a) LoadoutBuilder \<Rightarrow> ('l, 'a) LoadoutBuilder" where
  "onQueryChanged newQuery c = setState (\<lambda>s. s\<lparr> query := newQuery \<rparr>) c"

definition onStatOrderChanged ::
  "StatTypes list \<Rightarrow> ('l, 'a) LoadoutBuilder \<Rightarrow> ('l, 'a) LoadoutBuilder" where
  "onStatOrderChanged newStatOrder c = setState (\<lambda>s. s\<lparr> statOrder := newStatOrder \<rparr>) c"

definition onLockedMapChanged ::
  "(nat \<rightharpoonup> 'l list) \<Rightarrow> ('l, 'a) LoadoutBuilder \<Rightarrow> ('l, 'a) LoadoutBuilder" where
  "onLockedMapChanged newLockedMap c = setState (\<lambda>s. s\<lparr> lockedMap := newLockedMap \<rparr>) c"

definition updateLockedArmor ::
  "InventoryBucket \<Rightarrow> 'l list \<Rightarrow> ('l, 'a) LoadoutBuilder \<Rightarrow> ('l, 'a) LoadoutBuilder" where
  "updateLockedArmor b locked c =
     setState (\<lambda>s. s\<lparr> lockedMap := (lockedMap s)(bucket_hash b \<mapsto> locked) \<rparr>) c"

subsection \<open>The stores subscription (lines 144--165)\<close>

text \<open>
  The callback given to \<^verbatim>\<open>subscribe\<close>. \<^verbatim>\<open>this.state\<close> is read after the first
  \<^verbatim>\<open>setState\<close>: it is the updated state when updates are applied at once, and the old one
  while React is batching. \<^verbatim>\<open>stores.find((s) => s.current)!.id\<close> throws a TypeError when
  no store is current; the state set so far stays.
\<close>

definition storesObserver ::
  "('d, 'c) Props \<Rightarrow> DimStore list option \<Rightarrow> ('l, 'a) LoadoutBuilder \<Rightarrow>
     error option \<times> ('l, 'a) LoadoutBuilder" where
  "storesObserver props snapshot c =
     (case snapshot of
        None \<Rightarrow> (None, c)
      | Some newStores \<Rightarrow>
          (let c1 = setState (\<lambda>s. s\<lparr> selectedStore := find current newStores \<rparr>) c
           in case selectedStore (state c1) of
                None \<Rightarrow>
                  (case find current newStores of
                     None \<Rightarrow> (Some (TypeError ''Cannot read property 'id' of undefined''), c1)
                   | Some cur \<Rightarrow> (None, onCharacterChanged props (store_id cur) c1))
              | Some previous \<Rightarrow>
                  (None,
                   setState (\<lambda>s. s\<lparr> selectedStore :=
                       find (\<lambda>s. store_id s = store_id previous) newStores \<rparr>) c1)))"

text \<open>
  The stores stream, as far as subscriptions go: the subscriptions that are active, and
  the next fresh one. \<^verbatim>\<open>unsubscribe\<close> on a subscription that is not active does nothing.
\<close>

record StoresStream =
  active :: "nat set"
  fresh :: nat

definition subscribe :: "StoresStream \<Rightarrow> nat \<times> StoresStream" where
  "subscribe stream =
     (fresh stream, stream\<lparr> active := insert (fresh stream) (active stream),
                             fresh := Suc (fresh stream) \<rparr>)"

definition unsubscribe :: "nat \<Rightarrow> StoresStream \<Rightarrow> StoresStream" where
  "unsubscribe subscription stream = stream\<lparr> active := active stream - {subscription} \<rparr>"

definition componentDidMount ::
  "StoresStream \<times> ('l, 'a) LoadoutBuilder \<Rightarrow> StoresStream \<times> ('l, 'a) LoadoutBuilder" where
  "componentDidMount sc =
     (case sc of (stream, c) \<Rightarrow>
        (case subscribe stream of (subscription, stream') \<Rightarrow>
           (stream', c\<lparr> storesSubscription := Some subscription \<rparr>)))"

definition componentWillUnmount ::
  "StoresStream \<times> ('l, 'a) LoadoutBuilder \<Rightarrow>
     error option \<times> StoresStream \<times> ('l, 'a) LoadoutBuilder" where
  "componentWillUnmount sc =
     (case sc of (stream, c) \<Rightarrow>
        (case storesSubscription c of
           None \<Rightarrow> (Some (TypeError ''Cannot read property 'unsubscribe' of undefined''), stream, c)
         | Some subscription \<Rightarrow> (None, unsubscribe subscription stream, c)))"

subsection \<open>Render (lines 167--301)\<close>

text \<open>
  \<^verbatim>\<open>computeSets\<close> and \<^verbatim>\<open>filterGeneratedSets\<close> are imported: they are parameters, functions
  that return a list of sets or throw. A run of one of them is recorded with its
  arguments.
\<close>

datatype ('l, 'a) call =
    ComputeSets "'l ComputeArgs"
  | FilterGeneratedSets "('l, 'a) FilterArgs"

text \<open>
  The try block of lines 205--223 with the three variables declared before it:
  \<^verbatim>\<open>processedSets\<close> and \<^verbatim>\<open>filteredSets\<close> start empty, \<^verbatim>\<open>processError\<close> undefined, and each
  keeps its initial value unless the assignment to it is reached.
\<close>

record ('l, 'a) Processed =
  builder :: "('l, 'a) LoadoutBuilder"
  calls :: "('l, 'a) call list"
  processedSets :: "'a list"
  filteredSets :: "'a list"
  processError :: "error option"

definition tryProcess ::
  "('l ComputeArgs \<Rightarrow> error + 'a list) \<Rightarrow> (('l, 'a) FilterArgs \<Rightarrow> error + 'a list) \<Rightarrow>
   ('l, 'a) LoadoutBuilder \<Rightarrow> 'l ComputeArgs \<Rightarrow>
   int \<times> (nat \<rightharpoonup> 'l list) \<times> (StatTypes \<Rightarrow> MinMax) \<times> StatTypes list \<Rightarrow> ('l, 'a) Processed" where
  "tryProcess computeSets filterGeneratedSets c computeArgs rest =
     (case memoizeOne computeSets (computeSetsMemoized c) computeArgs of
        (cache1, ran1, result1) \<Rightarrow>
          (let c1 = c\<lparr> computeSetsMemoized := cache1 \<rparr>;
               calls1 = (if ran1 then [ComputeSets computeArgs] else [])
           in case result1 of
                Inl e \<Rightarrow>
                  \<lparr> builder = c1, calls = calls1, processedSets = [], filteredSets = [],
                    processError = Some e \<rparr>
              | Inr sets1 \<Rightarrow>
                  (case memoizeOne filterGeneratedSets (filterSetsMemoized c1) (sets1, rest) of
                     (cache2, ran2, result2) \<Rightarrow>
                       (let c2 = c1\<lparr> filterSetsMemoized := cache2 \<rparr>;
                            calls2 = calls1 @
                              (if ran2 then [FilterGeneratedSets (sets1, rest)] else [])
                        in case result2 of
                             Inl e \<Rightarrow>
                               \<lparr> builder = c2, calls = calls2, processedSets = sets1,
                                 filteredSets = [], processError = Some e \<rparr>
                           | Inr sets2 \<Rightarrow>
                               \<lparr> builder = c2, calls = calls2, processedSets = sets1,
                                 filteredSets = sets2, processError = None \<rparr>))))"

text \<open>The elements of the rendered tree with the data props they are given.\<close>

datatype CharacterSelect =
  CharacterSelect (cs_selectedStore: DimStore) (cs_stores: "DimStore list")
    (cs_vertical: bool) (cs_isPhonePortrait: bool)

datatype ('a, 'd) FilterBuilds =
  FilterBuilds (fb_sets: "'a list") (fb_selectedStore: DimStore) (fb_minimumPower: int)
    (fb_stats: "StatTypes \<Rightarrow> MinMax") (fb_defs: 'd) (fb_order: "StatTypes list")

datatype 'l LockArmorAndPerks =
  LockArmorAndPerks (lap_items: Items) (lap_selectedStore: DimStore)
    (lap_lockedMap: "nat \<rightharpoonup> 'l list")

text \<open>
  What \<^verbatim>\<open>PageWithMenu.Contents\<close> holds: the error panel with the error's message, the
  no-builds notice with its button, or the generated sets.
\<close>

datatype ('l, 'a, 'd) Contents =
    ErrorPanel string
  | NoBuildsFound
  | GeneratedSets (gs_sets: "'a list") (gs_lockedMap: "nat \<rightharpoonup> 'l list")
      (gs_selectedStore: DimStore) (gs_defs: 'd) (gs_statOrder: "StatTypes list")

datatype ('l, 'a, 'd, 'c) View =
    Loading
  | PageWithMenu (characterSelect: CharacterSelect) (collapsibleTitle: bool)
      (searchFilterInput: 'c) (filterBuilds: "('a, 'd) FilterBuilds")
      (lockArmorAndPerks: "'l LockArmorAndPerks") (contents: "('l, 'a, 'd) Contents")

record ('l, 'a, 'd, 'c) Rendered =
  after :: "('l, 'a) LoadoutBuilder"
  console :: "error list"
  invoked :: "('l, 'a) call list"
  returned :: "error + ('l, 'a, 'd, 'c) View"

text \<open>
  \<^verbatim>\<open>render\<close>. Reading \<^verbatim>\<open>store.classType\<close> throws a TypeError when no character is selected
  and no store is current; that is outside the try block, so \<^verbatim>\<open>render\<close> itself throws.
\<close>

definition render ::
  "('l ComputeArgs \<Rightarrow> error + 'a list) \<Rightarrow> (('l, 'a) FilterArgs \<Rightarrow> error + 'a list) \<Rightarrow>
   ('d, 'c) Props \<Rightarrow> ('l, 'a) LoadoutBuilder \<Rightarrow> ('l, 'a, 'd, 'c) Rendered" where
  "render computeSets filterGeneratedSets props c =
     (case (if storesLoaded props then defs props else None) of
        None \<Rightarrow> \<lparr> after = c, console = [], invoked = [], returned = Inr Loading \<rparr>
      | Some d \<Rightarrow>
          (case (case selectedStore (state c) of
                   Some selected \<Rightarrow> Some selected
                 | None \<Rightarrow> find current (stores props)) of
             None \<Rightarrow>
               \<lparr> after = c, console = [], invoked = [],
                 returned = Inl (TypeError ''Cannot read property 'classType' of undefined'') \<rparr>
           | Some store \<Rightarrow>
               (case items props (store_classType store) of
                  None \<Rightarrow> \<lparr> after = c, console = [], invoked = [], returned = Inr Loading \<rparr>
                | Some _ \<Rightarrow>
                    (let filter = filterFunction (filters props) (query (state c));
                         p = tryProcess computeSets filterGeneratedSets c
                               (items props, store_classType store, requirePerks (state c),
                                lockedMap (state c), filter)
                               (minimumPower (state c), lockedMap (state c),
                                statFilters (state c), statOrder (state c))
                     in \<lparr> after = builder p,
                          console = (case processError p of None \<Rightarrow> [] | Some e \<Rightarrow> [e]),
                          invoked = calls p,
                          returned = Inr (PageWithMenu
                            (CharacterSelect store (stores props) (\<not> isPhonePortrait props)
                               (isPhonePortrait props))
                            (isPhonePortrait props)
                            (searchConfig props)
                            (FilterBuilds (processedSets p) store (minimumPower (state c))
                               (statFilters (state c)) d (statOrder (state c)))
                            (LockArmorAndPerks (items props) store (lockedMap (state c)))
                            (case processError p of
                               Some e \<Rightarrow>
                                 if truthy e then ErrorPanel (message e)
                                 else if processedSets p = [] \<and> requirePerks (state c)
                                 then NoBuildsFound
                                 else GeneratedSets (filteredSets p) (lockedMap (state c))
                                        store d (statOrder (state c))
                             | None \<Rightarrow>
                                 if processedSets p = [] \<and> requirePerks (state c)
                                 then NoBuildsFound
                                 else GeneratedSets (filteredSets p) (lockedMap (state c))
                                        store d (statOrder (state c)))) \<rparr>))))"

subsection \<open>The life of a mounted component\<close>

text \<open>
  What happens to a mounted instance: React calls a handler of the component from a user
  event (batching the updates and applying them when the handler returns), the stores
  stream delivers a snapshot (inside a batch when it is replayed during
  \<^verbatim>\<open>componentDidMount\<close>, outside of React otherwise), or React renders the component.
  An exception of the callback leaves the instance as the callback left it.
\<close>

datatype 'l event =
    SetRequiredPerks
  | CharacterChanged string
  | StatFiltersChanged "StatTypes \<Rightarrow> MinMax"
  | MinimumPowerChanged int
  | QueryChanged string
  | StatOrderChanged "StatTypes list"
  | LockedMapChanged "nat \<rightharpoonup> 'l list"
  | LockChanged InventoryBucket "'l list"
  | StoresNext bool "DimStore list option"
  | Render

definition batchedUpdates ::
  "(('l, 'a) LoadoutBuilder \<Rightarrow> ('l, 'a) LoadoutBuilder) \<Rightarrow>
   ('l, 'a) LoadoutBuilder \<Rightarrow> ('l, 'a) LoadoutBuilder" where
  "batchedUpdates handler c = (flushUpdates (handler (c\<lparr> batching := True \<rparr>)))\<lparr> batching := False \<rparr>"

fun fire ::
  "('l ComputeArgs \<Rightarrow> error + 'a list) \<Rightarrow> (('l, 'a) FilterArgs \<Rightarrow> error + 'a list) \<Rightarrow>
   ('d, 'c) Props \<Rightarrow> 'l event \<Rightarrow> ('l, 'a) LoadoutBuilder \<Rightarrow> ('l, 'a) LoadoutBuilder" where
  "fire cs fs props SetRequiredPerks c = batchedUpdates setRequiredPerks c"
| "fire cs fs props (CharacterChanged storeId) c =
     batchedUpdates (onCharacterChanged props storeId) c"
| "fire cs fs props (StatFiltersChanged v) c = batchedUpdates (onStatFiltersChanged v) c"
| "fire cs fs props (MinimumPowerChanged v) c = batchedUpdates (onMinimumPowerChanged v) c"
| "fire cs fs props (QueryChanged v) c = batchedUpdates (onQueryChanged v) c"
| "fire cs fs props (StatOrderChanged v) c = batchedUpdates (onStatOrderChanged v) c"
| "fire cs fs props (LockedMapChanged v) c = batchedUpdates (onLockedMapChanged v) c"
| "fire cs fs props (LockChanged b v) c = batchedUpdates (updateLockedArmor b v) c"
| "fire cs fs props (StoresNext inBatch snapshot) c =
     (if inBatch then batchedUpdates (\<lambda>c'. snd (storesObserver props snapshot c')) c
      else snd (storesObserver props snapshot (c\<lparr> batching := False \<rparr>)))"
| "fire cs fs props Render c = after (render cs fs props c)"

fun run ::
  "('l ComputeArgs \<Rightarrow> error + 'a list) \<Rightarrow> (('l, 'a) FilterArgs \<Rightarrow> error + 'a list) \<Rightarrow>
   (('d, 'c) Props \<times> 'l event) list \<Rightarrow> ('l, 'a) LoadoutBuilder \<Rightarrow> ('l, 'a) LoadoutBuilder" where
  "run cs fs [] c = c"
| "run cs fs ((props, e) # rest) c = run cs fs rest (fire cs fs props e c)"

subsection \<open>Sequences of memoized calls\<close>

text \<open>
  The wrapper called on one argument list after the other: for each call, whether the
  underlying function was run and what the call returned or threw.
\<close>

fun memoizedCalls ::
  "('x \<Rightarrow> error + 'r) \<Rightarrow> ('x, 'r) memo \<Rightarrow> 'x list \<Rightarrow> (bool \<times> (error + 'r)) list" where
  "memoizedCalls resultFn cache [] = []"
| "memoizedCalls resultFn cache (newArgs # rest) =
     (case memoizeOne resultFn cache newArgs of
        (cache', outcome) \<Rightarrow> outcome # memoizedCalls resultFn cache' rest)"

fun cacheAfter :: "('x \<Rightarrow> error + 'r) \<Rightarrow> ('x, 'r) memo \<Rightarrow> 'x list \<Rightarrow> ('x, 'r) memo" where
  "cacheAfter resultFn cache [] = cache"
| "cacheAfter resultFn cache (newArgs # rest) =
     cacheAfter resultFn (fst (memoizeOne resultFn cache newArgs)) rest"

text \<open>
  The arguments of the latest call, among the calls made so far, on which the underlying
  function returns; \<open>None\<close> when it threw on all of them or none was made.
\<close>

definition latestReturned :: "('x \<Rightarrow> error + 'r) \<Rightarrow> 'x list \<Rightarrow> 'x option" where
  "latestReturned resultFn argss = find (\<lambda>args. case resultFn args of Inl _ \<Rightarrow> False | Inr _ \<Rightarrow> True) (rev argss)"

text \<open>
  A cache is coherent with the underlying function when the result it holds is what the
  function returns on the arguments it holds.
\<close>

definition coherent :: "('x \<Rightarrow> error + 'r) \<Rightarrow> ('x, 'r) memo \<Rightarrow> bool" where
  "coherent resultFn cache =
     (case cache of None \<Rightarrow> True | Some (lastArgs, lastResult) \<Rightarrow> resultFn lastArgs = Inr lastResult)"

text \<open>Whether a cache holds a result for these arguments.\<close>

definition cached :: "('x, 'r) memo \<Rightarrow> 'x \<Rightarrow> bool" where
  "cached cache args = (case cache of None \<Rightarrow> False | Some (lastArgs, lastResult) \<Rightarrow> args = lastArgs)"

subsection \<open>Example values\<close>

definition exampleGhost :: D2Item where
  "exampleGhost =
     \<lparr> isDestiny2 = True, sockets = Some [], bucket = \<lparr> inArmor = False, bucket_hash = 4023194814 \<rparr>,
       item_classType = Unknown, item_hash = 7 \<rparr>"

definition exampleHelmet :: D2Item where
  "exampleHelmet =
     \<lparr> isDestiny2 = True, sockets = Some [1], bucket = \<lparr> inArmor = True, bucket_hash = 3448274439 \<rparr>,
       item_classType = Titan, item_hash = 11 \<rparr>"

definition exampleWeapon :: D2Item where
  "exampleWeapon =
     \<lparr> isDestiny2 = True, sockets = Some [2], bucket = \<lparr> inArmor = False, bucket_hash = 1498876634 \<rparr>,
       item_classType = Unknown, item_hash = 13 \<rparr>"

definition exampleTitan :: DimStore where
  "exampleTitan =
     \<lparr> store_id = ''titan'', current = True, store_classType = Titan,
       store_items = [Some exampleGhost, None, Some exampleHelmet, Some exampleWeapon] \<rparr>"

definition exampleHunter :: DimStore where
  "exampleHunter =
     \<lparr> store_id = ''hunter'', current = False, store_classType = Hunter, store_items = [] \<rparr>"

definition exampleProps :: "(unit, unit) Props" where
  "exampleProps =
     \<lparr> storesLoaded = True, stores = [exampleTitan, exampleHunter], isPhonePortrait = False,
       items = [Titan \<mapsto> Map.empty, Hunter \<mapsto> Map.empty], defs = Some (), searchConfig = (),
       filters = \<lparr> filterFunction = (\<lambda>q item. True) \<rparr> \<rparr>"

text \<open>A function that throws on every argument list, and one that throws on 0 only.\<close>

definition alwaysThrows :: "'x \<Rightarrow> error + 'r" where
  "alwaysThrows args = Inl (Error ''boom'')"

definition throwsAtZero :: "nat \<Rightarrow> error + nat list" where
  "throwsAtZero n = (if n = 0 then Inl (Error ''boom'') else Inr [n])"

text \<open>
  Two functions in the place of \<^verbatim>\<open>computeSets\<close> and \<^verbatim>\<open>filterGeneratedSets\<close> that return:
  no set while perks are required and three sets otherwise; the sets above the minimum
  power.
\<close>

definition exampleComputeSets :: "nat ComputeArgs \<Rightarrow> error + nat list" where
  "exampleComputeSets args =
     (case args of (its, classType, perks, locked, flt) \<Rightarrow>
        if perks then Inr [] else Inr [1, 2, 3])"

definition exampleFilterSets :: "(nat, nat) FilterArgs \<Rightarrow> error + nat list" where
  "exampleFilterSets args =
     (case args of (sets, minPower, locked, ranges, order) \<Rightarrow>
        if order = [] then Inl (Error ''no order'') else Inr (filter (\<lambda>s. minPower < int s) sets))"



section \<open>Properties\<close>

subsection \<open>The items selector\<close>

lemma itemsAt_pushItem:
  "itemsAt (pushItem item classType m) c b h =
     itemsAt m c b h @
       (if c = classType \<and> b = bucket_hash (bucket item) \<and> h = item_hash item then [item] else [])"
  by (simp add: itemsAt_def pushItem_def Let_def split: option.splits)

lemma itemsAt_forClassTypes:
  "distinct cts \<Longrightarrow>
   itemsAt (forClassTypes item cts m) c b h =
     itemsAt m c b h @
       (if c \<in> set cts \<and> b = bucket_hash (bucket item) \<and> h = item_hash item then [item] else [])"
proof (induction cts arbitrary: m)
  case Nil
  then show ?case by simp
next
  case (Cons ct cts)
  then show ?case by (auto simp: itemsAt_pushItem)
qed

lemma distinct_classTypesOf: "distinct (classTypesOf item)"
  by (simp add: classTypesOf_def)

lemma itemsAt_forItems:
  "itemsAt (forItems entries m) c b h =
     itemsAt m c b h @ filter (placed c b h) (List.map_filter (\<lambda>entry. entry) entries)"
proof (induction entries arbitrary: m)
  case Nil
  then show ?case by simp
next
  case (Cons entry entries)
  show ?case
  proof (cases entry)
    case None
    then show ?thesis using Cons.IH [of m]
      by (simp add: skipItem_def)
  next
    case (Some item)
    show ?thesis
    proof (cases "skipItem (Some item)")
      case True
      then have "\<not> placed c b h item" by (simp add: placed_def)
      with True Some show ?thesis using Cons.IH [of m]
        by simp
    next
      case False
      have step: "itemsAt (forClassTypes item (classTypesOf item) m) c b h =
          itemsAt m c b h @ (if placed c b h item then [item] else [])"
        using False by (simp add: itemsAt_forClassTypes distinct_classTypesOf placed_def)
      from False Some show ?thesis
        using Cons.IH [of "forClassTypes item (classTypesOf item) m"]
        by (simp add: step)
    qed
  qed
qed

lemma itemsAt_forStores:
  "itemsAt (forStores ss m) c b h = itemsAt m c b h @ filter (placed c b h) (allItems ss)"
  by (induction ss arbitrary: m) (simp_all add: allItems_def itemsAt_forItems)

lemma itemsAt_empty: "itemsAt Map.empty c b h = []"
  by (simp add: itemsAt_def)

text \<open>
  C9. For every list of stores, what the selector holds under a class type, a bucket hash
  and an item hash is the list of the stores' items, in the order of the stores, that are
  Destiny 2 items with sockets in an armor bucket or in the ghost bucket 4023194814,
  that have this bucket hash and this item hash, and whose class type is this one or,
  for an item of class Unknown, any of Hunter, Titan and Warlock. So no other item is
  included, an Unknown item is under all three classes, and any other item under its own
  class only.
\<close>

theorem itemsSelector_groups:
  "itemsAt (itemsSelector ss) c b h =
     filter (\<lambda>item.
         (isDestiny2 item \<and> sockets item \<noteq> None \<and>
          (inArmor (bucket item) \<or> bucket_hash (bucket item) = 4023194814)) \<and>
         (if item_classType item = Unknown then c \<in> {Hunter, Titan, Warlock}
          else c = item_classType item) \<and>
         bucket_hash (bucket item) = b \<and> item_hash item = h)
       (allItems ss)"
proof -
  have "placed c b h = (\<lambda>item.
         (isDestiny2 item \<and> sockets item \<noteq> None \<and>
          (inArmor (bucket item) \<or> bucket_hash (bucket item) = 4023194814)) \<and>
         (if item_classType item = Unknown then c \<in> {Hunter, Titan, Warlock}
          else c = item_classType item) \<and>
         bucket_hash (bucket item) = b \<and> item_hash item = h)"
    by (auto simp: placed_def skipItem_def classTypesOf_def fun_eq_iff)
  then show ?thesis
    by (simp add: itemsSelector_def itemsAt_forStores itemsAt_empty)
qed

theorem itemsSelector_groups_witness:
  "itemsAt (itemsSelector [exampleTitan, exampleHunter]) Hunter 4023194814 7 = [exampleGhost] \<and>
   itemsAt (itemsSelector [exampleTitan, exampleHunter]) Titan 3448274439 11 = [exampleHelmet] \<and>
   itemsAt (itemsSelector [exampleTitan, exampleHunter]) Warlock 3448274439 11 = [] \<and>
   itemsAt (itemsSelector [exampleTitan, exampleHunter]) Titan 1498876634 13 = []"
  using itemsSelector_groups [of "[exampleTitan, exampleHunter]" Hunter 4023194814 7]
    itemsSelector_groups [of "[exampleTitan, exampleHunter]" Titan 3448274439 11]
    itemsSelector_groups [of "[exampleTitan, exampleHunter]" Warlock 3448274439 11]
    itemsSelector_groups [of "[exampleTitan, exampleHunter]" Titan 1498876634 13]
  by (simp add: allItems_def exampleTitan_def exampleHunter_def exampleGhost_def
      exampleHelmet_def exampleWeapon_def)

subsection \<open>Character change\<close>

lemma state_flush_setState:
  "state (flushUpdates (setState update c)) = update (state (flushUpdates c))"
  by (simp add: setState_def flushUpdates_def)

lemma find_store_id:
  assumes "\<exists>s \<in> set ss. store_id s = storeId"
  shows "\<exists>s. find (\<lambda>s. store_id s = storeId) ss = Some s \<and> s \<in> set ss \<and> store_id s = storeId"
proof -
  from assms have "find (\<lambda>s. store_id s = storeId) ss \<noteq> None"
    by (auto simp: find_None_iff)
  then obtain s where s: "find (\<lambda>s. store_id s = storeId) ss = Some s" by auto
  then show ?thesis by (auto simp: find_Some_iff)
qed

text \<open>
  C2. For every instance, whatever its state and its queued updates, once the update of
  \<^verbatim>\<open>onCharacterChanged\<close> is applied for a store id present in \<^verbatim>\<open>props.stores\<close>, the selected
  store is the store of \<^verbatim>\<open>props.stores\<close> with that id (the first one, which \<^verbatim>\<open>find\<close>
  returns), the locked map is empty and every stat filter is the range from 0 to 10.
\<close>

theorem onCharacterChanged_resets:
  assumes "\<exists>s \<in> set (stores props). store_id s = storeId"
  shows "\<exists>s. find (\<lambda>s. store_id s = storeId) (stores props) = Some s \<and>
           s \<in> set (stores props) \<and> store_id s = storeId \<and>
           selectedStore (state (flushUpdates (onCharacterChanged props storeId c))) = Some s \<and>
           lockedMap (state (flushUpdates (onCharacterChanged props storeId c))) = Map.empty \<and>
           (\<forall>stat. statFilters (state (flushUpdates (onCharacterChanged props storeId c))) stat
                     = \<lparr> mm_min = 0, mm_max = 10 \<rparr>)"
proof -
  from find_store_id [OF assms] obtain s where
    s: "find (\<lambda>s. store_id s = storeId) (stores props) = Some s"
       "s \<in> set (stores props)" "store_id s = storeId" by blast
  have "\<And>stat. (case stat of Mobility \<Rightarrow> \<lparr> mm_min = 0, mm_max = 10 \<rparr>
      | Resilience \<Rightarrow> \<lparr> mm_min = 0, mm_max = 10 \<rparr>
      | Recovery \<Rightarrow> \<lparr> mm_min = 0, mm_max = 10 \<rparr>) = \<lparr> mm_min = 0, mm_max = 10 \<rparr>"
    by (simp split: StatTypes.split)
  with s show ?thesis
    by (simp add: onCharacterChanged_def state_flush_setState)
qed

theorem onCharacterChanged_resets_witness:
  "(\<exists>s \<in> set (stores exampleProps). store_id s = ''hunter'') \<and>
   selectedStore (state (flushUpdates (onCharacterChanged exampleProps ''hunter''
       (constructor :: (nat, nat) LoadoutBuilder)))) = Some exampleHunter \<and>
   lockedMap (state (flushUpdates (onCharacterChanged exampleProps ''hunter''
       (constructor :: (nat, nat) LoadoutBuilder)))) = Map.empty \<and>
   statFilters (state (flushUpdates (onCharacterChanged exampleProps ''hunter''
       (constructor :: (nat, nat) LoadoutBuilder)))) Recovery = \<lparr> mm_min = 0, mm_max = 10 \<rparr>"
proof -
  have h: "\<exists>s \<in> set (stores exampleProps). store_id s = ''hunter''"
    by (simp add: exampleProps_def exampleHunter_def)
  have f: "find (\<lambda>s. store_id s = ''hunter'') (stores exampleProps) = Some exampleHunter"
    by (simp add: exampleProps_def exampleHunter_def exampleTitan_def)
  from onCharacterChanged_resets [OF h, of "constructor :: (nat, nat) LoadoutBuilder"] f h
  show ?thesis by auto
qed

text \<open>
  C10. \<^verbatim>\<open>onCharacterChanged\<close> leaves the query and the stat order as they were: once its
  update is applied, both are what they are without the call. With the five fields the
  update writes (C2 and the definition), these are all the fields of the state.
\<close>

theorem onCharacterChanged_frame:
  "query (state (flushUpdates (onCharacterChanged props storeId c))) =
     query (state (flushUpdates c)) \<and>
   statOrder (state (flushUpdates (onCharacterChanged props storeId c))) =
     statOrder (state (flushUpdates c)) \<and>
   state (flushUpdates (onCharacterChanged props storeId c)) =
     (state (flushUpdates c))\<lparr>
        selectedStore := selectedStore (state (flushUpdates (onCharacterChanged props storeId c))),
        lockedMap := lockedMap (state (flushUpdates (onCharacterChanged props storeId c))),
        requirePerks := requirePerks (state (flushUpdates (onCharacterChanged props storeId c))),
        statFilters := statFilters (state (flushUpdates (onCharacterChanged props storeId c))),
        minimumPower := minimumPower (state (flushUpdates (onCharacterChanged props storeId c))) \<rparr>"
  by (simp add: onCharacterChanged_def state_flush_setState)

theorem onCharacterChanged_frame_witness:
  "query (state (flushUpdates (onCharacterChanged exampleProps ''hunter''
      (onStatOrderChanged [Mobility, Recovery, Resilience]
        (onQueryChanged ''is:titan'' (constructor :: (nat, nat) LoadoutBuilder)))))) = ''is:titan'' \<and>
   statOrder (state (flushUpdates (onCharacterChanged exampleProps ''hunter''
      (onStatOrderChanged [Mobility, Recovery, Resilience]
        (onQueryChanged ''is:titan'' (constructor :: (nat, nat) LoadoutBuilder)))))) =
     [Mobility, Recovery, Resilience]"
  using onCharacterChanged_frame [of exampleProps "''hunter''"
      "onStatOrderChanged [Mobility, Recovery, Resilience]
        (onQueryChanged ''is:titan'' (constructor :: (nat, nat) LoadoutBuilder))"]
  by (simp add: onStatOrderChanged_def onQueryChanged_def constructor_def setState_def
      flushUpdates_def)

text \<open>
  Only \<^verbatim>\<open>onStatOrderChanged\<close> writes the stat order, so the order stays a permutation of
  the three stats for as long as that handler is given permutations, as the child
  component that is handed the handler does.
\<close>

lemma state_tryProcess [simp]:
  "state (builder (tryProcess cs fs c args rest)) = state c \<and>
   pending (builder (tryProcess cs fs c args rest)) = pending c \<and>
   batching (builder (tryProcess cs fs c args rest)) = batching c"
  by (simp add: tryProcess_def Let_def split: prod.splits sum.splits)

lemma state_render [simp]:
  "state (after (render cs fs props c)) = state c \<and>
   pending (after (render cs fs props c)) = pending c \<and>
   batching (after (render cs fs props c)) = batching c"
  by (simp add: render_def Let_def split: option.splits)

lemma statOrder_fire:
  assumes "pending c = []"
  shows "statOrder (state (fire cs fs props e c)) =
           (case e of StatOrderChanged v \<Rightarrow> v | _ \<Rightarrow> statOrder (state c)) \<and>
         pending (fire cs fs props e c) = []"
  using assms
  by (cases e)
     (simp_all add: batchedUpdates_def flushUpdates_def setState_def setRequiredPerks_def
        onCharacterChanged_def onStatFiltersChanged_def onMinimumPowerChanged_def
        onQueryChanged_def onStatOrderChanged_def onLockedMapChanged_def updateLockedArmor_def
        storesObserver_def Let_def split: option.splits)

lemma statOrder_run:
  assumes "pending c = []"
    and "distinct (statOrder (state c)) \<and> set (statOrder (state c)) = {Mobility, Resilience, Recovery}"
    and "\<forall>pe \<in> set events. case snd pe of
            StatOrderChanged v \<Rightarrow> distinct v \<and> set v = {Mobility, Resilience, Recovery}
          | _ \<Rightarrow> True"
  shows "distinct (statOrder (state (run cs fs events c))) \<and>
         set (statOrder (state (run cs fs events c))) = {Mobility, Resilience, Recovery}"
  using assms
proof (induction events arbitrary: c)
  case Nil
  then show ?case by simp
next
  case (Cons pe events)
  obtain props e where pe: "pe = (props, e)" by (cases pe)
  from Cons.prems(1) have f: "statOrder (state (fire cs fs props e c)) =
           (case e of StatOrderChanged v \<Rightarrow> v | _ \<Rightarrow> statOrder (state c))"
     "pending (fire cs fs props e c) = []"
    using statOrder_fire [of c cs fs props e] by simp_all
  have "distinct (statOrder (state (fire cs fs props e c))) \<and>
        set (statOrder (state (fire cs fs props e c))) = {Mobility, Resilience, Recovery}"
    using Cons.prems(2,3) f(1) pe by (cases e) simp_all
  with Cons.IH [OF f(2)] Cons.prems(3) pe show ?case by simp
qed

lemma pending_run:
  "pending c = [] \<Longrightarrow> pending (run cs fs events c) = []"
proof (induction events arbitrary: c)
  case Nil
  then show ?case by simp
next
  case (Cons pe events)
  obtain props e where pe: "pe = (props, e)" by (cases pe)
  from statOrder_fire [OF Cons.prems, of cs fs props e] Cons.IH [of "fire cs fs props e c"] pe
  show ?case by simp
qed

text \<open>
  C8. In the initial state each stat filter is a range within 0 to 10 with min at most
  max, and the stat order has no duplicate and holds exactly Mobility, Resilience and
  Recovery. The same holds in the state produced by a character change, after any
  handlers, snapshots and renders since the construction in which \<^verbatim>\<open>onStatOrderChanged\<close>
  was given permutations of the three stats only.
\<close>

theorem character_change_invariants:
  assumes "\<forall>pe \<in> set events. case snd pe of
            StatOrderChanged v \<Rightarrow> distinct v \<and> set v = {Mobility, Resilience, Recovery}
          | _ \<Rightarrow> True"
  shows "(\<forall>stat. 0 \<le> mm_min (statFilters (initialState :: 'l State) stat) \<and>
           mm_min (statFilters (initialState :: 'l State) stat)
             \<le> mm_max (statFilters (initialState :: 'l State) stat) \<and>
           mm_max (statFilters (initialState :: 'l State) stat) \<le> 10) \<and>
   distinct (statOrder (initialState :: 'l State)) \<and>
   set (statOrder (initialState :: 'l State)) = {Mobility, Resilience, Recovery} \<and>
   (\<forall>stat. 0 \<le> mm_min (statFilters (state (flushUpdates (onCharacterChanged props storeId
               (run cs fs events (constructor :: ('l, 'a) LoadoutBuilder))))) stat) \<and>
           mm_min (statFilters (state (flushUpdates (onCharacterChanged props storeId
               (run cs fs events (constructor :: ('l, 'a) LoadoutBuilder))))) stat)
             \<le> mm_max (statFilters (state (flushUpdates (onCharacterChanged props storeId
               (run cs fs events (constructor :: ('l, 'a) LoadoutBuilder))))) stat) \<and>
           mm_max (statFilters (state (flushUpdates (onCharacterChanged props storeId
               (run cs fs events (constructor :: ('l, 'a) LoadoutBuilder))))) stat) \<le> 10) \<and>
   distinct (statOrder (state (flushUpdates (onCharacterChanged props storeId
               (run cs fs events (constructor :: ('l, 'a) LoadoutBuilder)))))) \<and>
   set (statOrder (state (flushUpdates (onCharacterChanged props storeId
               (run cs fs events (constructor :: ('l, 'a) LoadoutBuilder)))))) =
     {Mobility, Resilience, Recovery}"
proof -
  define c where "c = run cs fs events (constructor :: ('l, 'a) LoadoutBuilder)"
  have p0: "pending (constructor :: ('l, 'a) LoadoutBuilder) = []"
    by (simp add: constructor_def)
  have o0: "distinct (statOrder (state (constructor :: ('l, 'a) LoadoutBuilder))) \<and>
            set (statOrder (state (constructor :: ('l, 'a) LoadoutBuilder))) =
              {Mobility, Resilience, Recovery}"
    by (auto simp: constructor_def initialState_def)
  from pending_run [OF p0, of cs fs events] have pc: "pending c = []" by (simp add: c_def)
  from statOrder_run [OF p0 o0 assms, of cs fs]
  have oc: "distinct (statOrder (state c)) \<and> set (statOrder (state c)) = {Mobility, Resilience, Recovery}"
    by (simp add: c_def)
  from pc have fc: "state (flushUpdates c) = state c" by (simp add: flushUpdates_def)
  have after: "statOrder (state (flushUpdates (onCharacterChanged props storeId c))) = statOrder (state c)"
    by (simp add: onCharacterChanged_def state_flush_setState fc)
  have ranges: "\<forall>stat. 0 \<le> mm_min (statFilters (state (flushUpdates (onCharacterChanged props storeId c))) stat) \<and>
           mm_min (statFilters (state (flushUpdates (onCharacterChanged props storeId c))) stat)
             \<le> mm_max (statFilters (state (flushUpdates (onCharacterChanged props storeId c))) stat) \<and>
           mm_max (statFilters (state (flushUpdates (onCharacterChanged props storeId c))) stat) \<le> 10"
    by (auto simp: onCharacterChanged_def state_flush_setState split: StatTypes.split)
  have init: "(\<forall>stat. 0 \<le> mm_min (statFilters (initialState :: 'l State) stat) \<and>
           mm_min (statFilters (initialState :: 'l State) stat)
             \<le> mm_max (statFilters (initialState :: 'l State) stat) \<and>
           mm_max (statFilters (initialState :: 'l State) stat) \<le> 10) \<and>
   distinct (statOrder (initialState :: 'l State)) \<and>
   set (statOrder (initialState :: 'l State)) = {Mobility, Resilience, Recovery}"
    by (auto simp: initialState_def split: StatTypes.split)
  from init ranges after oc show ?thesis
    unfolding c_def by simp
qed

theorem character_change_invariants_witness:
  "mm_min (statFilters (state (flushUpdates (onCharacterChanged exampleProps ''hunter''
      (run alwaysThrows alwaysThrows
         [(exampleProps, StatOrderChanged [Mobility, Recovery, Resilience]),
          (exampleProps, StatFiltersChanged (\<lambda>stat. \<lparr> mm_min = 4, mm_max = 2 \<rparr>))]
         (constructor :: (nat, nat) LoadoutBuilder))))) Mobility) = 0 \<and>
   mm_max (statFilters (state (flushUpdates (onCharacterChanged exampleProps ''hunter''
      (run alwaysThrows alwaysThrows
         [(exampleProps, StatOrderChanged [Mobility, Recovery, Resilience]),
          (exampleProps, StatFiltersChanged (\<lambda>stat. \<lparr> mm_min = 4, mm_max = 2 \<rparr>))]
         (constructor :: (nat, nat) LoadoutBuilder))))) Mobility) = 10 \<and>
   distinct (statOrder (state (flushUpdates (onCharacterChanged exampleProps ''hunter''
      (run alwaysThrows alwaysThrows
         [(exampleProps, StatOrderChanged [Mobility, Recovery, Resilience]),
          (exampleProps, StatFiltersChanged (\<lambda>stat. \<lparr> mm_min = 4, mm_max = 2 \<rparr>))]
         (constructor :: (nat, nat) LoadoutBuilder)))))) \<and>
   statOrder (state (flushUpdates (onCharacterChanged exampleProps ''hunter''
      (run alwaysThrows alwaysThrows
         [(exampleProps, StatOrderChanged [Mobility, Recovery, Resilience]),
          (exampleProps, StatFiltersChanged (\<lambda>stat. \<lparr> mm_min = 4, mm_max = 2 \<rparr>))]
         (constructor :: (nat, nat) LoadoutBuilder))))) = [Mobility, Recovery, Resilience]"
proof -
  have perms: "\<forall>pe \<in> set [(exampleProps, StatOrderChanged [Mobility, Recovery, Resilience]),
          (exampleProps, StatFiltersChanged (\<lambda>stat. \<lparr> mm_min = 4, mm_max = 2 \<rparr>) :: nat event)].
        case snd pe of
            StatOrderChanged v \<Rightarrow> distinct v \<and> set v = {Mobility, Resilience, Recovery}
          | _ \<Rightarrow> True"
    by auto
  have order: "statOrder (state (flushUpdates (onCharacterChanged exampleProps ''hunter''
      (run alwaysThrows alwaysThrows
         [(exampleProps, StatOrderChanged [Mobility, Recovery, Resilience]),
          (exampleProps, StatFiltersChanged (\<lambda>stat. \<lparr> mm_min = 4, mm_max = 2 \<rparr>))]
         (constructor :: (nat, nat) LoadoutBuilder))))) = [Mobility, Recovery, Resilience]"
    by (simp add: batchedUpdates_def onStatOrderChanged_def onStatFiltersChanged_def
        onCharacterChanged_def setState_def flushUpdates_def constructor_def initialState_def)
  have filt: "statFilters (state (flushUpdates (onCharacterChanged exampleProps ''hunter''
      (run alwaysThrows alwaysThrows
         [(exampleProps, StatOrderChanged [Mobility, Recovery, Resilience]),
          (exampleProps, StatFiltersChanged (\<lambda>stat. \<lparr> mm_min = 4, mm_max = 2 \<rparr>))]
         (constructor :: (nat, nat) LoadoutBuilder))))) Mobility = \<lparr> mm_min = 0, mm_max = 10 \<rparr>"
    by (simp add: batchedUpdates_def onStatOrderChanged_def onStatFiltersChanged_def
        onCharacterChanged_def setState_def flushUpdates_def constructor_def initialState_def)
  from character_change_invariants [OF perms, of exampleProps "''hunter''" alwaysThrows alwaysThrows]
  have "distinct (statOrder (state (flushUpdates (onCharacterChanged exampleProps ''hunter''
      (run alwaysThrows alwaysThrows
         [(exampleProps, StatOrderChanged [Mobility, Recovery, Resilience]),
          (exampleProps, StatFiltersChanged (\<lambda>stat. \<lparr> mm_min = 4, mm_max = 2 \<rparr>))]
         (constructor :: (nat, nat) LoadoutBuilder))))))"
    by blast
  with order filt show ?thesis by simp
qed

subsection \<open>The stores subscription\<close>

text \<open>
  What the callback does to the state for a snapshot with a current store. When updates
  are applied at once, the first \<^verbatim>\<open>setState\<close> has already replaced the selection by the
  current store when \<^verbatim>\<open>this.state.selectedStore\<close> is read, so the store looked up by id
  is the current one. While React is batching, \<^verbatim>\<open>this.state\<close> still holds the previous
  selection and the lookup is by its id.
\<close>

lemma storesObserver_immediate:
  assumes "\<not> batching c" "find current newStores = Some cur"
  shows "fst (storesObserver props (Some newStores) c) = None \<and>
         state (snd (storesObserver props (Some newStores) c)) =
           (state (flushUpdates c))\<lparr> selectedStore := find (\<lambda>s. store_id s = store_id cur) newStores \<rparr>"
  using assms by (simp add: storesObserver_def setState_def flushUpdates_def Let_def)

lemma storesObserver_batched:
  assumes "batching c" "selectedStore (state c) = Some previous"
  shows "fst (storesObserver props (Some newStores) c) = None \<and>
         state (flushUpdates (snd (storesObserver props (Some newStores) c))) =
           (state (flushUpdates c))\<lparr> selectedStore :=
              find (\<lambda>s. store_id s = store_id previous) newStores \<rparr>"
  using assms by (simp add: storesObserver_def setState_def flushUpdates_def Let_def)

text \<open>
  C3. The hunter is selected and the stream delivers, outside of a React batch, a
  snapshot with the titan (current) and the hunter. The store of the snapshot with the id
  of the previous selection is the hunter, but the callback leaves the titan selected.
\<close>

theorem storesObserver_selects_current:
  "fst (storesObserver exampleProps (Some [exampleTitan, exampleHunter])
      ((constructor :: (nat, nat) LoadoutBuilder)
         \<lparr> state := initialState\<lparr> selectedStore := Some exampleHunter \<rparr> \<rparr>)) = None \<and>
   selectedStore (state (snd (storesObserver exampleProps (Some [exampleTitan, exampleHunter])
      ((constructor :: (nat, nat) LoadoutBuilder)
         \<lparr> state := initialState\<lparr> selectedStore := Some exampleHunter \<rparr> \<rparr>)))) = Some exampleTitan \<and>
   find (\<lambda>s. store_id s = store_id exampleHunter) [exampleTitan, exampleHunter] = Some exampleHunter \<and>
   exampleTitan \<noteq> exampleHunter"
  by (simp add: storesObserver_def setState_def flushUpdates_def Let_def constructor_def
      initialState_def exampleTitan_def exampleHunter_def)

text \<open>The same snapshot delivered inside a batch keeps the hunter; outside, the titan.\<close>

lemma storesNext_batch_or_not:
  "selectedStore (state (fire alwaysThrows alwaysThrows exampleProps
      (StoresNext True (Some [exampleTitan, exampleHunter]))
      ((constructor :: (nat, nat) LoadoutBuilder)
         \<lparr> state := initialState\<lparr> selectedStore := Some exampleHunter \<rparr> \<rparr>))) = Some exampleHunter \<and>
   selectedStore (state (fire alwaysThrows alwaysThrows exampleProps
      (StoresNext False (Some [exampleTitan, exampleHunter]))
      ((constructor :: (nat, nat) LoadoutBuilder)
         \<lparr> state := initialState\<lparr> selectedStore := Some exampleHunter \<rparr> \<rparr>))) = Some exampleTitan"
  by (simp add: storesObserver_def setState_def flushUpdates_def Let_def constructor_def
      initialState_def exampleTitan_def exampleHunter_def batchedUpdates_def)

lemma sub_flushUpdates [simp]: "storesSubscription (flushUpdates c) = storesSubscription c"
  by (simp add: flushUpdates_def)

lemma sub_setState [simp]: "storesSubscription (setState u c) = storesSubscription c"
  by (simp add: setState_def)

lemma sub_batchedUpdates:
  "(\<And>c'. storesSubscription (handler c') = storesSubscription c') \<Longrightarrow>
   storesSubscription (batchedUpdates handler c) = storesSubscription c"
  by (simp add: batchedUpdates_def)

lemma sub_storesObserver [simp]:
  "storesSubscription (snd (storesObserver props snapshot c)) = storesSubscription c"
  by (simp add: storesObserver_def onCharacterChanged_def Let_def split: option.splits)

lemma sub_tryProcess [simp]:
  "storesSubscription (builder (tryProcess cs fs c args rest)) = storesSubscription c"
  by (simp add: tryProcess_def Let_def split: prod.splits sum.splits)

lemma sub_render [simp]: "storesSubscription (after (render cs fs props c)) = storesSubscription c"
  by (simp add: render_def Let_def split: option.splits)

lemma sub_fire [simp]: "storesSubscription (fire cs fs props e c) = storesSubscription c"
  by (cases e)
     (simp_all add: sub_batchedUpdates setRequiredPerks_def onCharacterChanged_def
        onStatFiltersChanged_def onMinimumPowerChanged_def onQueryChanged_def
        onStatOrderChanged_def onLockedMapChanged_def updateLockedArmor_def)

lemma sub_run [simp]: "storesSubscription (run cs fs events c) = storesSubscription c"
  by (induction events arbitrary: c) auto

text \<open>
  C5. Mounting makes one call of \<^verbatim>\<open>subscribe\<close>, which adds one subscription to the stream
  and stores it in the instance. Whatever handlers, snapshots and renders come between
  mount and unmount, and whatever the stream is by then, unmounting throws nothing and
  leaves the stream without that subscription, the others untouched.
\<close>

theorem subscription_released:
  "componentDidMount (stream, c) =
     (snd (subscribe stream), c\<lparr> storesSubscription := Some (fst (subscribe stream)) \<rparr>) \<and>
   active (snd (subscribe stream)) = insert (fresh stream) (active stream) \<and>
   fst (subscribe stream) = fresh stream \<and>
   fst (componentWillUnmount
          (later, run cs fs events (snd (componentDidMount (stream, c))))) = None \<and>
   active (fst (snd (componentWillUnmount
          (later, run cs fs events (snd (componentDidMount (stream, c))))))) =
     active later - {fresh stream}"
  by (simp add: componentDidMount_def componentWillUnmount_def subscribe_def unsubscribe_def
      split: prod.splits)

theorem subscription_released_witness:
  "active (fst (componentDidMount (\<lparr> active = {0}, fresh = 1 \<rparr>,
       (constructor :: (nat, nat) LoadoutBuilder)))) = {0, 1} \<and>
   active (fst (snd (componentWillUnmount
       (fst (componentDidMount (\<lparr> active = {0}, fresh = 1 \<rparr>,
               (constructor :: (nat, nat) LoadoutBuilder))),
        run alwaysThrows alwaysThrows
          [(exampleProps, StoresNext True (Some [exampleTitan, exampleHunter])),
           (exampleProps, Render),
           (exampleProps, CharacterChanged ''hunter'')]
          (snd (componentDidMount (\<lparr> active = {0}, fresh = 1 \<rparr>,
               (constructor :: (nat, nat) LoadoutBuilder)))))))) = {0}"
proof -
  have mounted: "active (fst (componentDidMount (\<lparr> active = {0}, fresh = 1 \<rparr>,
       (constructor :: (nat, nat) LoadoutBuilder)))) = {0, 1}"
    by (auto simp: componentDidMount_def subscribe_def)
  have "active (fst (snd (componentWillUnmount
       (fst (componentDidMount (\<lparr> active = {0}, fresh = 1 \<rparr>,
               (constructor :: (nat, nat) LoadoutBuilder))),
        run alwaysThrows alwaysThrows
          [(exampleProps, StoresNext True (Some [exampleTitan, exampleHunter])),
           (exampleProps, Render),
           (exampleProps, CharacterChanged ''hunter'')]
          (snd (componentDidMount (\<lparr> active = {0}, fresh = 1 \<rparr>,
               (constructor :: (nat, nat) LoadoutBuilder)))))))) =
     active (fst (componentDidMount (\<lparr> active = {0}, fresh = 1 \<rparr>,
       (constructor :: (nat, nat) LoadoutBuilder)))) - {fresh \<lparr> active = {0}, fresh = 1 \<rparr>}"
    by (rule subscription_released [THEN conjunct2, THEN conjunct2, THEN conjunct2, THEN conjunct2])
  also have "\<dots> = {0}"
    unfolding mounted by auto
  finally have released: "active (fst (snd (componentWillUnmount
       (fst (componentDidMount (\<lparr> active = {0}, fresh = 1 \<rparr>,
               (constructor :: (nat, nat) LoadoutBuilder))),
        run alwaysThrows alwaysThrows
          [(exampleProps, StoresNext True (Some [exampleTitan, exampleHunter])),
           (exampleProps, Render),
           (exampleProps, CharacterChanged ''hunter'')]
          (snd (componentDidMount (\<lparr> active = {0}, fresh = 1 \<rparr>,
               (constructor :: (nat, nat) LoadoutBuilder)))))))) = {0}" .
  from mounted released show ?thesis by (rule conjI)
qed

subsection \<open>The memoized calls\<close>

lemma memoizeOne_coherent:
  assumes "coherent f cache"
  shows "coherent f (fst (memoizeOne f cache a)) \<and> snd (snd (memoizeOne f cache a)) = f a"
  using assms
  by (auto simp: coherent_def memoizeOne_def applyResultFn_def split: option.splits sum.splits)

lemma memoizedCalls_outcomes:
  "coherent f cache \<Longrightarrow> map snd (memoizedCalls f cache argss) = map f argss"
proof (induction argss arbitrary: cache)
  case Nil
  then show ?case by simp
next
  case (Cons a argss)
  obtain cache' outcome where m: "memoizeOne f cache a = (cache', outcome)"
    by (cases "memoizeOne f cache a")
  from memoizeOne_coherent [OF Cons.prems, of a] m
  have "coherent f cache'" "snd outcome = f a"
    by simp_all
  with Cons.IH [of cache'] m show ?case
    by simp
qed

lemma cacheAfter_snoc:
  "cacheAfter f cache (before @ [a]) = fst (memoizeOne f (cacheAfter f cache before) a)"
  by (induction before arbitrary: cache) simp_all

lemma memoizedCalls_snoc:
  "memoizedCalls f cache (before @ [a]) =
     memoizedCalls f cache before @ [snd (memoizeOne f (cacheAfter f cache before) a)]"
  by (induction before arbitrary: cache) (simp_all split: prod.splits)

lemma latestReturned_snoc:
  "latestReturned f (before @ [a]) =
     (case f a of Inl _ \<Rightarrow> latestReturned f before | Inr _ \<Rightarrow> Some a)"
  by (simp add: latestReturned_def split: sum.splits)

lemma cacheAfter_latestReturned:
  "cacheAfter f None before =
     (case latestReturned f before of
        None \<Rightarrow> None
      | Some a \<Rightarrow> (case f a of Inl _ \<Rightarrow> None | Inr r \<Rightarrow> Some (a, r)))"
proof (induction before rule: rev_induct)
  case Nil
  then show ?case by (simp add: latestReturned_def)
next
  case (snoc a before)
  then show ?case
    by (auto simp: cacheAfter_snoc latestReturned_snoc memoizeOne_def applyResultFn_def
        split: option.splits sum.splits)
qed

lemma latestReturned_Some:
  assumes "latestReturned f before = Some a"
  shows "\<exists>r. f a = Inr r"
proof -
  from assms have "case f a of Inl _ \<Rightarrow> False | Inr _ \<Rightarrow> True"
    unfolding latestReturned_def find_Some_iff by blast
  then show ?thesis by (cases "f a") simp_all
qed

text \<open>
  C4. For \<^verbatim>\<open>computeSetsMemoized\<close> and \<^verbatim>\<open>filterSetsMemoized\<close> alike (the wrapper of any
  function): starting from the empty cache, every call of the wrapper returns or throws
  exactly what the underlying function returns or throws on the same arguments; and the
  underlying function is run in a call exactly when no earlier call has returned, or the
  arguments differ from those of the latest call that returned. A call that threw left
  no trace in the cache.
\<close>

theorem memoizeOne_refines:
  "map snd (memoizedCalls f None argss) = map f argss \<and>
   (fst (last (memoizedCalls f None (before @ [a]))) \<longleftrightarrow> latestReturned f before \<noteq> Some a)"
proof
  show "map snd (memoizedCalls f None argss) = map f argss"
    by (rule memoizedCalls_outcomes) (simp add: coherent_def)
next
  show "fst (last (memoizedCalls f None (before @ [a]))) \<longleftrightarrow> latestReturned f before \<noteq> Some a"
  proof (cases "latestReturned f before")
    case None
    then show ?thesis
      by (simp add: memoizedCalls_snoc cacheAfter_latestReturned memoizeOne_def
          applyResultFn_def split: sum.splits)
  next
    case (Some b)
    from latestReturned_Some [OF Some] obtain r where "f b = Inr r" by blast
    with Some show ?thesis
      by (auto simp: memoizedCalls_snoc cacheAfter_latestReturned memoizeOne_def
          applyResultFn_def split: sum.splits)
  qed
qed

text \<open>
  When the underlying function throws on none of the earlier arguments, the latest call
  that returned is the latest call.
\<close>

lemma latestReturned_total:
  assumes "\<forall>x \<in> set before. \<exists>r. f x = Inr r"
  shows "latestReturned f before = (if before = [] then None else Some (last before))"
  using assms
  by (induction before rule: rev_induct) (auto simp: latestReturned_snoc latestReturned_def)

text \<open>
  The claim as it is written fails after a call that threw: the next call runs the
  underlying function again although its argument is that of the latest call.
\<close>

theorem memoizeOne_rerun_counterexample:
  "fst (last (memoizedCalls throwsAtZero None [0, 0])) = True \<and> [0::nat, 0] ! 1 = [0, 0] ! 0"
  by (simp add: memoizeOne_def applyResultFn_def throwsAtZero_def)

theorem memoizeOne_refines_witness:
  "map snd (memoizedCalls throwsAtZero None [0, 3, 3, 0, 3, 4]) =
     [Inl (Error ''boom''), Inr [3], Inr [3], Inl (Error ''boom''), Inr [3], Inr [4]] \<and>
   fst (last (memoizedCalls throwsAtZero None ([0, 3, 3, 0] @ [3]))) = False \<and>
   fst (last (memoizedCalls throwsAtZero None ([0, 3, 3, 0, 3] @ [4]))) = True"
  using memoizeOne_refines [of throwsAtZero "[0, 3, 3, 0, 3, 4]" "[0, 3, 3, 0]" 3]
    memoizeOne_refines [of throwsAtZero "[]" "[0, 3, 3, 0, 3]" 4]
  by (simp add: throwsAtZero_def latestReturned_def)

subsection \<open>Render\<close>





text \<open>
  When the stores and the definitions are loaded, a store is selected or current, and the
  items hold the class of that store, \<^verbatim>\<open>render\<close> reaches the try block and returns the
  page; in every other case no function is run.
\<close>

lemma render_page:
  assumes "storesLoaded props" "defs props = Some d"
    and "(case selectedStore (state c) of Some selected \<Rightarrow> Some selected
          | None \<Rightarrow> find current (stores props)) = Some store"
    and "items props (store_classType store) = Some m"
  shows "render cs fs props c =
     (let p = tryProcess cs fs c
                (items props, store_classType store, requirePerks (state c),
                 lockedMap (state c), filterFunction (filters props) (query (state c)))
                (minimumPower (state c), lockedMap (state c),
                 statFilters (state c), statOrder (state c))
      in \<lparr> after = builder p,
           console = (case processError p of None \<Rightarrow> [] | Some e \<Rightarrow> [e]),
           invoked = calls p,
           returned = Inr (PageWithMenu
             (CharacterSelect store (stores props) (\<not> isPhonePortrait props)
                (isPhonePortrait props))
             (isPhonePortrait props)
             (searchConfig props)
             (FilterBuilds (processedSets p) store (minimumPower (state c))
                (statFilters (state c)) d (statOrder (state c)))
             (LockArmorAndPerks (items props) store (lockedMap (state c)))
             (case processError p of
                Some e \<Rightarrow>
                  if truthy e then ErrorPanel (message e)
                  else if processedSets p = [] \<and> requirePerks (state c)
                  then NoBuildsFound
                  else GeneratedSets (filteredSets p) (lockedMap (state c))
                         store d (statOrder (state c))
              | None \<Rightarrow>
                  if processedSets p = [] \<and> requirePerks (state c)
                  then NoBuildsFound
                  else GeneratedSets (filteredSets p) (lockedMap (state c))
                         store d (statOrder (state c)))) \<rparr>)"
  using assms by (simp add: render_def Let_def)







text \<open>
  The caches of an instance stay coherent with the two functions: they are empty in the
  constructor, the try block keeps them coherent, and nothing else writes them.
\<close>

lemma tryProcess_coherent:
  assumes "coherent cs (computeSetsMemoized c)" "coherent fs (filterSetsMemoized c)"
  shows "coherent cs (computeSetsMemoized (builder (tryProcess cs fs c args rest))) \<and>
         coherent fs (filterSetsMemoized (builder (tryProcess cs fs c args rest)))"
    and "cs args = Inr ps \<Longrightarrow> fs (ps, rest) = Inr fl \<Longrightarrow>
           processError (tryProcess cs fs c args rest) = None \<and>
           processedSets (tryProcess cs fs c args rest) = ps \<and>
           filteredSets (tryProcess cs fs c args rest) = fl \<and>
           set (calls (tryProcess cs fs c args rest))
             \<subseteq> {ComputeSets args, FilterGeneratedSets (ps, rest)}"
proof -
  obtain cache1 ran1 result1 where m1:
    "memoizeOne cs (computeSetsMemoized c) args = (cache1, ran1, result1)"
    by (cases "memoizeOne cs (computeSetsMemoized c) args") auto
  from memoizeOne_coherent [OF assms(1), of args] m1
  have k1: "coherent cs cache1" "result1 = cs args" by simp_all
  show "coherent cs (computeSetsMemoized (builder (tryProcess cs fs c args rest))) \<and>
         coherent fs (filterSetsMemoized (builder (tryProcess cs fs c args rest)))"
  proof (cases result1)
    case (Inl e)
    with m1 have "memoizeOne cs (computeSetsMemoized c) args = (cache1, ran1, Inl e)" by simp
    with k1(1) assms(2) show ?thesis by (simp add: tryProcess_def Let_def)
  next
    case (Inr sets1)
    with m1 have m1': "memoizeOne cs (computeSetsMemoized c) args = (cache1, ran1, Inr sets1)"
      by simp
    obtain cache2 ran2 result2 where m2:
      "memoizeOne fs (filterSetsMemoized c) (sets1, rest) = (cache2, ran2, result2)"
      by (cases "memoizeOne fs (filterSetsMemoized c) (sets1, rest)") auto
    from memoizeOne_coherent [OF assms(2), of "(sets1, rest)"] m2
    have "coherent fs cache2" by simp
    with m1' m2 k1(1) show ?thesis
      by (cases result2) (simp_all add: tryProcess_def Let_def)
  qed
  assume r: "cs args = Inr ps" "fs (ps, rest) = Inr fl"
  obtain cache2 ran2 result2 where m2:
    "memoizeOne fs (filterSetsMemoized c) (ps, rest) = (cache2, ran2, result2)"
    by (cases "memoizeOne fs (filterSetsMemoized c) (ps, rest)") auto
  from memoizeOne_coherent [OF assms(2), of "(ps, rest)"] m2 r
  have "result2 = Inr fl" by simp
  with m2 have m2': "memoizeOne fs (filterSetsMemoized c) (ps, rest) = (cache2, ran2, Inr fl)"
    by simp
  from m1 k1(2) r(1) have m1': "memoizeOne cs (computeSetsMemoized c) args = (cache1, ran1, Inr ps)"
    by simp
  from m1' m2'
  show "processError (tryProcess cs fs c args rest) = None \<and>
           processedSets (tryProcess cs fs c args rest) = ps \<and>
           filteredSets (tryProcess cs fs c args rest) = fl \<and>
           set (calls (tryProcess cs fs c args rest))
             \<subseteq> {ComputeSets args, FilterGeneratedSets (ps, rest)}"
    by (auto simp: tryProcess_def Let_def)
qed

lemma memo_flushUpdates [simp]:
  "computeSetsMemoized (flushUpdates c) = computeSetsMemoized c \<and>
   filterSetsMemoized (flushUpdates c) = filterSetsMemoized c"
  by (simp add: flushUpdates_def)

lemma memo_setState [simp]:
  "computeSetsMemoized (setState u c) = computeSetsMemoized c \<and>
   filterSetsMemoized (setState u c) = filterSetsMemoized c"
  by (simp add: setState_def)

lemma memo_storesObserver [simp]:
  "computeSetsMemoized (snd (storesObserver props snapshot c)) = computeSetsMemoized c \<and>
   filterSetsMemoized (snd (storesObserver props snapshot c)) = filterSetsMemoized c"
  by (simp add: storesObserver_def onCharacterChanged_def Let_def split: option.splits)

lemma coherent_render:
  assumes "coherent cs (computeSetsMemoized c)" "coherent fs (filterSetsMemoized c)"
  shows "coherent cs (computeSetsMemoized (after (render cs fs props c))) \<and>
         coherent fs (filterSetsMemoized (after (render cs fs props c)))"
  using assms tryProcess_coherent(1) [OF assms]
  by (simp add: render_def Let_def split: option.splits)

lemma coherent_fire:
  assumes "coherent cs (computeSetsMemoized c)" "coherent fs (filterSetsMemoized c)"
  shows "coherent cs (computeSetsMemoized (fire cs fs props e c)) \<and>
         coherent fs (filterSetsMemoized (fire cs fs props e c))"
proof (cases e)
  case Render
  with coherent_render [OF assms] show ?thesis by simp
qed (use assms in \<open>simp_all add: batchedUpdates_def setRequiredPerks_def onCharacterChanged_def
        onStatFiltersChanged_def onMinimumPowerChanged_def onQueryChanged_def
        onStatOrderChanged_def onLockedMapChanged_def updateLockedArmor_def\<close>)

lemma coherent_run:
  assumes "coherent cs (computeSetsMemoized c)" "coherent fs (filterSetsMemoized c)"
  shows "coherent cs (computeSetsMemoized (run cs fs events c)) \<and>
         coherent fs (filterSetsMemoized (run cs fs events c))"
  using assms
proof (induction events arbitrary: c)
  case Nil
  then show ?case by simp
next
  case (Cons pe events)
  obtain props e where pe: "pe = (props, e)" by (cases pe)
  from coherent_fire [OF Cons.prems, of props e] Cons.IH [of "fire cs fs props e c"] pe
  show ?case by simp
qed

lemma coherent_constructor:
  "coherent cs (computeSetsMemoized constructor) \<and> coherent fs (filterSetsMemoized constructor)"
  by (simp add: constructor_def coherent_def)

text \<open>
  With a coherent cache a call of the wrapper gives what the underlying function gives,
  and runs it exactly when the cache does not hold the arguments.
\<close>

lemma memoizeOne_coherent_eq:
  assumes "coherent f cache"
  shows "memoizeOne f cache a =
           (if cached cache a then cache
            else (case f a of Inl e \<Rightarrow> cache | Inr r \<Rightarrow> Some (a, r)),
            \<not> cached cache a, f a)"
  using assms
  by (auto simp: coherent_def cached_def memoizeOne_def applyResultFn_def
      split: option.splits sum.splits)

lemma tryProcess_outcome:
  assumes "coherent cs (computeSetsMemoized c)" "coherent fs (filterSetsMemoized c)"
  shows "processError (tryProcess cs fs c args rest) =
           (case cs args of
              Inl e \<Rightarrow> Some e
            | Inr ps \<Rightarrow> (case fs (ps, rest) of Inl e \<Rightarrow> Some e | Inr fl \<Rightarrow> None))"
    and "processedSets (tryProcess cs fs c args rest) =
           (case cs args of Inl e \<Rightarrow> [] | Inr ps \<Rightarrow> ps)"
    and "filteredSets (tryProcess cs fs c args rest) =
           (case cs args of
              Inl e \<Rightarrow> []
            | Inr ps \<Rightarrow> (case fs (ps, rest) of Inl e \<Rightarrow> [] | Inr fl \<Rightarrow> fl))"
    and "calls (tryProcess cs fs c args rest) =
           (if cached (computeSetsMemoized c) args then [] else [ComputeSets args]) @
           (case cs args of
              Inl e \<Rightarrow> []
            | Inr ps \<Rightarrow>
                if cached (filterSetsMemoized c) (ps, rest) then []
                else [FilterGeneratedSets (ps, rest)])"
  by (simp_all add: tryProcess_def Let_def memoizeOne_coherent_eq [OF assms(1)]
      memoizeOne_coherent_eq [OF assms(2)] split: sum.splits)

text \<open>
  C1. For an instance that has gone through any handlers, snapshots and renders since its
  construction: in every render that reaches the computation in which \<^verbatim>\<open>computeSets\<close>
  throws, or returns a list on which \<^verbatim>\<open>filterGeneratedSets\<close> throws, and what is thrown is
  an \<^verbatim>\<open>Error\<close> object, \<^verbatim>\<open>render\<close> does not throw: it logs that error, once, and returns the
  page whose contents are the error panel with the error's message, in the place of
  \<^verbatim>\<open>GeneratedSets\<close>. In the menu \<^verbatim>\<open>FilterBuilds\<close> is given the empty list when
  \<^verbatim>\<open>computeSets\<close> threw, and the list \<^verbatim>\<open>computeSets\<close> returned when
  \<^verbatim>\<open>filterGeneratedSets\<close> threw.
\<close>

theorem render_failure_shows_error_panel:
  assumes "c = run cs fs events constructor"
    and "storesLoaded props" "defs props = Some d"
    and "(case selectedStore (state c) of Some selected \<Rightarrow> Some selected
          | None \<Rightarrow> find current (stores props)) = Some store"
    and "items props (store_classType store) = Some m"
    and "cs (items props, store_classType store, requirePerks (state c), lockedMap (state c),
             filterFunction (filters props) (query (state c))) = Inl e \<or>
         (\<exists>ps. cs (items props, store_classType store, requirePerks (state c),
                   lockedMap (state c), filterFunction (filters props) (query (state c))) = Inr ps \<and>
               fs (ps, minimumPower (state c), lockedMap (state c), statFilters (state c),
                   statOrder (state c)) = Inl e)"
    and "truthy e"
  shows "console (render cs fs props c) = [e] \<and>
         returned (render cs fs props c) =
           Inr (PageWithMenu
             (CharacterSelect store (stores props) (\<not> isPhonePortrait props)
                (isPhonePortrait props))
             (isPhonePortrait props)
             (searchConfig props)
             (FilterBuilds
                (case cs (items props, store_classType store, requirePerks (state c),
                          lockedMap (state c), filterFunction (filters props) (query (state c))) of
                   Inl thrown \<Rightarrow> []
                 | Inr ps \<Rightarrow> ps)
                store (minimumPower (state c)) (statFilters (state c)) d (statOrder (state c)))
             (LockArmorAndPerks (items props) store (lockedMap (state c)))
             (ErrorPanel (message e)))"
proof -
  from coherent_run [of cs constructor fs events] coherent_constructor [of cs fs] assms(1)
  have coh: "coherent cs (computeSetsMemoized c)" "coherent fs (filterSetsMemoized c)"
    by simp_all
  note page = render_page [OF assms(2-5), of cs fs]
  note out = tryProcess_outcome [OF coh]
  from assms(6) show ?thesis
  proof
    assume "cs (items props, store_classType store, requirePerks (state c), lockedMap (state c),
             filterFunction (filters props) (query (state c))) = Inl e"
    with page assms(7) show ?thesis
      by (simp add: Let_def out)
  next
    assume "\<exists>ps. cs (items props, store_classType store, requirePerks (state c),
                   lockedMap (state c), filterFunction (filters props) (query (state c))) = Inr ps \<and>
               fs (ps, minimumPower (state c), lockedMap (state c), statFilters (state c),
                   statOrder (state c)) = Inl e"
    then obtain ps where
      "cs (items props, store_classType store, requirePerks (state c),
                   lockedMap (state c), filterFunction (filters props) (query (state c))) = Inr ps"
      "fs (ps, minimumPower (state c), lockedMap (state c), statFilters (state c),
                   statOrder (state c)) = Inl e" by blast
    with page assms(7) show ?thesis
      by (simp add: Let_def out)
  qed
qed

text \<open>
  When what is thrown is falsy, the test of \<^verbatim>\<open>processError\<close> does not see it: the error is
  logged, and the contents are the no-builds notice or \<^verbatim>\<open>GeneratedSets\<close> with the empty
  list.
\<close>

lemma render_falsy_failure:
  assumes "c = run cs fs events constructor"
    and "storesLoaded props" "defs props = Some d"
    and "(case selectedStore (state c) of Some selected \<Rightarrow> Some selected
          | None \<Rightarrow> find current (stores props)) = Some store"
    and "items props (store_classType store) = Some m"
    and "cs (items props, store_classType store, requirePerks (state c), lockedMap (state c),
             filterFunction (filters props) (query (state c))) = Inr ps"
    and "fs (ps, minimumPower (state c), lockedMap (state c), statFilters (state c),
             statOrder (state c)) = Inl Falsy"
  shows "console (render cs fs props c) = [Falsy] \<and>
         (\<exists>view. returned (render cs fs props c) = Inr view \<and>
            contents view =
              (if ps = [] \<and> requirePerks (state c) then NoBuildsFound
               else GeneratedSets [] (lockedMap (state c)) store d (statOrder (state c))))"
proof -
  from coherent_run [of cs constructor fs events] coherent_constructor [of cs fs] assms(1)
  have coh: "coherent cs (computeSetsMemoized c)" "coherent fs (filterSetsMemoized c)"
    by simp_all
  note page = render_page [OF assms(2-5), of cs fs]
  note out = tryProcess_outcome [OF coh]
  from page assms(6,7) show ?thesis
    by (simp add: Let_def out)
qed



text \<open>Two instances of the example after two handlers each.\<close>

lemma example_no_order:
  "run exampleComputeSets exampleFilterSets
         [(exampleProps, SetRequiredPerks), (exampleProps, StatOrderChanged [])]
         (constructor :: (nat, nat) LoadoutBuilder) =
     constructor\<lparr> state := initialState\<lparr> requirePerks := False, statOrder := [] \<rparr> \<rparr>"
  by (simp add: batchedUpdates_def setRequiredPerks_def onStatOrderChanged_def setState_def
      flushUpdates_def constructor_def initialState_def)


text \<open>
  The claim as it is written fails when only \<^verbatim>\<open>filterGeneratedSets\<close> throws: beside the
  error panel, the rendered page holds the list that \<^verbatim>\<open>computeSets\<close> returned, given to
  \<^verbatim>\<open>FilterBuilds\<close>.
\<close>

theorem render_failure_partial_results_counterexample:
  "returned (render exampleComputeSets exampleFilterSets exampleProps
      (run exampleComputeSets exampleFilterSets
         [(exampleProps, SetRequiredPerks), (exampleProps, StatOrderChanged [])]
         (constructor :: (nat, nat) LoadoutBuilder))) =
     Inr (PageWithMenu
       (CharacterSelect exampleTitan [exampleTitan, exampleHunter] True False) False ()
       (FilterBuilds [1, 2, 3] exampleTitan 0 (statFilters (initialState :: nat State)) () [])
       (LockArmorAndPerks (items exampleProps) exampleTitan Map.empty)
       (ErrorPanel ''no order'')) \<and>
   exampleComputeSets (items exampleProps, Titan, False, Map.empty,
       filterFunction (filters exampleProps) []) = Inr [1, 2, 3] \<and>
   exampleFilterSets ([1, 2, 3], 0, Map.empty, statFilters (initialState :: nat State), []) =
     Inl (Error ''no order'')"
  by (simp only: example_no_order)
     (simp add: render_def tryProcess_def memoizeOne_def applyResultFn_def
        exampleComputeSets_def exampleFilterSets_def exampleProps_def exampleTitan_def
        exampleHunter_def constructor_def initialState_def Let_def)

theorem render_failure_shows_error_panel_witness:
  "console (render alwaysThrows alwaysThrows exampleProps
      (constructor :: (nat, nat) LoadoutBuilder)) = [Error ''boom''] \<and>
   returned (render alwaysThrows alwaysThrows exampleProps
      (constructor :: (nat, nat) LoadoutBuilder)) =
     Inr (PageWithMenu
       (CharacterSelect exampleTitan [exampleTitan, exampleHunter] True False) False ()
       (FilterBuilds [] exampleTitan 0 (statFilters (initialState :: nat State)) ()
          [Resilience, Recovery, Mobility])
       (LockArmorAndPerks (items exampleProps) exampleTitan Map.empty)
       (ErrorPanel ''boom'')) \<and>
   console (render exampleComputeSets exampleFilterSets exampleProps
      (run exampleComputeSets exampleFilterSets
         [(exampleProps, SetRequiredPerks), (exampleProps, StatOrderChanged [])]
         (constructor :: (nat, nat) LoadoutBuilder))) = [Error ''no order''] \<and>
   returned (render exampleComputeSets exampleFilterSets exampleProps
      (run exampleComputeSets exampleFilterSets
         [(exampleProps, SetRequiredPerks), (exampleProps, StatOrderChanged [])]
         (constructor :: (nat, nat) LoadoutBuilder))) =
     Inr (PageWithMenu
       (CharacterSelect exampleTitan [exampleTitan, exampleHunter] True False) False ()
       (FilterBuilds [1, 2, 3] exampleTitan 0 (statFilters (initialState :: nat State)) () [])
       (LockArmorAndPerks (items exampleProps) exampleTitan Map.empty)
       (ErrorPanel ''no order''))"
proof -
  define c1 where "c1 = run alwaysThrows alwaysThrows ([] :: ((unit, unit) Props \<times> nat event) list)
      (constructor :: (nat, nat) LoadoutBuilder)"
  have s1: "c1 = constructor" by (simp add: c1_def)
  have a2: "storesLoaded exampleProps" and a3: "defs exampleProps = Some ()"
    by (simp_all add: exampleProps_def)
  have a4: "(case selectedStore (state c1) of Some selected \<Rightarrow> Some selected
          | None \<Rightarrow> find current (stores exampleProps)) = Some exampleTitan"
    by (simp add: s1 constructor_def initialState_def exampleProps_def exampleTitan_def)
  have a5: "items exampleProps (store_classType exampleTitan) = Some Map.empty"
    by (simp add: exampleProps_def exampleTitan_def)
  have a6: "alwaysThrows (items exampleProps, store_classType exampleTitan,
              requirePerks (state c1), lockedMap (state c1),
              filterFunction (filters exampleProps) (query (state c1))) = Inl (Error ''boom'') \<or>
         (\<exists>ps. alwaysThrows (items exampleProps, store_classType exampleTitan,
                   requirePerks (state c1), lockedMap (state c1),
                   filterFunction (filters exampleProps) (query (state c1))) = Inr ps \<and>
               alwaysThrows (ps, minimumPower (state c1), lockedMap (state c1),
                   statFilters (state c1), statOrder (state c1)) = Inl (Error ''boom''))"
    by (simp add: alwaysThrows_def)
  have a7: "truthy (Error ''boom'')" by simp
  note first = render_failure_shows_error_panel [OF c1_def a2 a3 a4 a5 a6 a7]
  define c2 where "c2 = run exampleComputeSets exampleFilterSets
         [(exampleProps, SetRequiredPerks), (exampleProps, StatOrderChanged [])]
         (constructor :: (nat, nat) LoadoutBuilder)"
  have s2: "c2 = constructor\<lparr> state := initialState\<lparr> requirePerks := False, statOrder := [] \<rparr> \<rparr>"
    unfolding c2_def by (rule example_no_order)
  have b4: "(case selectedStore (state c2) of Some selected \<Rightarrow> Some selected
          | None \<Rightarrow> find current (stores exampleProps)) = Some exampleTitan"
    by (simp add: s2 constructor_def initialState_def exampleProps_def exampleTitan_def)
  have b6: "exampleComputeSets (items exampleProps, store_classType exampleTitan,
              requirePerks (state c2), lockedMap (state c2),
              filterFunction (filters exampleProps) (query (state c2))) = Inl (Error ''no order'') \<or>
         (\<exists>ps. exampleComputeSets (items exampleProps, store_classType exampleTitan,
                   requirePerks (state c2), lockedMap (state c2),
                   filterFunction (filters exampleProps) (query (state c2))) = Inr ps \<and>
               exampleFilterSets (ps, minimumPower (state c2), lockedMap (state c2),
                   statFilters (state c2), statOrder (state c2)) = Inl (Error ''no order''))"
    by (simp add: s2 constructor_def initialState_def exampleComputeSets_def exampleFilterSets_def)
  have b7: "truthy (Error ''no order'')" by simp
  note second = render_failure_shows_error_panel [OF c2_def a2 a3 b4 a5 b6 b7]
  have k: "alwaysThrows (items exampleProps, store_classType exampleTitan,
              requirePerks (state c1), lockedMap (state c1),
              filterFunction (filters exampleProps) (query (state c1))) =
            (Inl (Error ''boom'') :: error + nat list)"
    by (simp add: alwaysThrows_def)
  from first [unfolded k sum.case] have one: "console (render alwaysThrows alwaysThrows exampleProps
      (constructor :: (nat, nat) LoadoutBuilder)) = [Error ''boom''] \<and>
   returned (render alwaysThrows alwaysThrows exampleProps
      (constructor :: (nat, nat) LoadoutBuilder)) =
     Inr (PageWithMenu
       (CharacterSelect exampleTitan [exampleTitan, exampleHunter] True False) False ()
       (FilterBuilds [] exampleTitan 0 (statFilters (initialState :: nat State)) ()
          [Resilience, Recovery, Mobility])
       (LockArmorAndPerks (items exampleProps) exampleTitan Map.empty)
       (ErrorPanel ''boom''))"
    by (simp add: s1 constructor_def initialState_def exampleProps_def)
  have k2: "exampleComputeSets (items exampleProps, store_classType exampleTitan,
              requirePerks (state c2), lockedMap (state c2),
              filterFunction (filters exampleProps) (query (state c2))) = Inr [1, 2, 3]"
    by (simp add: s2 constructor_def exampleComputeSets_def)
  from second [unfolded k2 sum.case] have two: "console (render exampleComputeSets exampleFilterSets exampleProps c2) =
       [Error ''no order''] \<and>
   returned (render exampleComputeSets exampleFilterSets exampleProps c2) =
     Inr (PageWithMenu
       (CharacterSelect exampleTitan [exampleTitan, exampleHunter] True False) False ()
       (FilterBuilds [1, 2, 3] exampleTitan 0 (statFilters (initialState :: nat State)) () [])
       (LockArmorAndPerks (items exampleProps) exampleTitan Map.empty)
       (ErrorPanel ''no order''))"
    by (simp add: s2 constructor_def initialState_def exampleProps_def)
  from one two show ?thesis
    unfolding c2_def by simp
qed





end
